theory Spec2Isabelle
  imports Main "HOL-Library.Word"
begin

unbundle bit_operations_syntax

section \<open>Feature flags\<close>

text \<open>
  The enum \<^verbatim>\<open>Features\<close> of focus-trap.ts (lines 25 to 43). JavaScript's bitwise
  operators work on 32-bit integers, so the members are 32-bit words; \<^verbatim>\<open>1 << n\<close> is
  \<open>push_bit n 1\<close>. The members \<^verbatim>\<open>None\<close> and \<^verbatim>\<open>All\<close> carry the enum's name as a
  prefix, since HOL has constants of those names.
\<close>

type_synonym Features = "32 word"

definition Features_None :: Features where
  "Features_None = push_bit 0 1"

definition InitialFocus :: Features where
  "InitialFocus = push_bit 1 1"

definition TabLock :: Features where
  "TabLock = push_bit 2 1"

definition FocusLock :: Features where
  "FocusLock = push_bit 3 1"

definition RestoreFocus :: Features where
  "RestoreFocus = push_bit 4 1"

definition Features_All :: Features where
  "Features_All = InitialFocus OR TabLock OR FocusLock OR RestoreFocus"

text \<open>\<^verbatim>\<open>Boolean(props.features & Features.X)\<close>, the test every manager is gated by.\<close>

definition enabled :: "Features \<Rightarrow> Features \<Rightarrow> bool" where
  "enabled fs flag = (fs AND flag \<noteq> 0)"

section \<open>The document and the collaborators\<close>

text \<open>
  Nodes of the document (elements, and any other event target) are identified by
  numbers. A reference (\<^verbatim>\<open>Ref<HTMLElement | null>\<close>) is modelled by the node it
  currently holds; \<open>None\<close> stands for \<^verbatim>\<open>null\<close> and \<^verbatim>\<open>undefined\<close>.
\<close>

type_synonym node = nat

text \<open>
  Modelled from the spec: the enums \<^verbatim>\<open>Focus\<close> and \<^verbatim>\<open>FocusResult\<close> of
  utils/focus-management and \<^verbatim>\<open>Direction\<close> of hooks/use-tab-direction are not among
  the sources. The spec names the selectors first, previous, next and last, the options
  to wrap around and not to scroll, the results success and no-candidate-found, and the
  directions Forwards and Backwards. A combination \<^verbatim>\<open>Focus.A | Focus.B\<close> is the set of
  its flags.
\<close>

datatype Focus = First | Previous | Next | Last | WrapAround | NoScroll

datatype FocusResult = Error | Success

datatype TabDirection = Forwards | Backwards

text \<open>The calls the trap makes to its collaborators, in the order they are made.\<close>

datatype call =
    FocusElement node
  | FocusIn "node option" "Focus set" "node option list" "node option"
  | ConsoleWarn string

text \<open>
  What the trap reads from the browser: \<open>activeElement\<close> is
  \<^verbatim>\<open>ownerDocument.value?.activeElement\<close>, \<open>node_contains d a b\<close> is
  \<^verbatim>\<open>a.contains(b)\<close>, \<open>instanceof_HTMLElement\<close> is \<^verbatim>\<open>x instanceof HTMLElement\<close>,
  \<open>headlessuiFocusGuard\<close> is \<^verbatim>\<open>x.dataset.headlessuiFocusGuard === 'true'\<close>, and
  \<open>focusable d r\<close> lists the focusable descendants of \<open>r\<close> in sequential focus order.
  \<open>calls\<close> records the calls to the collaborators, oldest first.
\<close>

record document =
  activeElement :: "node option"
  node_contains :: "node \<Rightarrow> node \<Rightarrow> bool"
  instanceof_HTMLElement :: "node \<Rightarrow> bool"
  headlessuiFocusGuard :: "node \<Rightarrow> bool"
  focusable :: "node \<Rightarrow> node list"
  calls :: "call list"

text \<open>
  Modelled from the spec: utils/dom is not among the sources. The spec treats a reference
  as holding an element or nothing; \<open>dom\<close> reads the element a reference holds.
\<close>

definition dom :: "node option \<Rightarrow> node option" where
  "dom r = r"

text \<open>
  Modelled from the spec: \<^verbatim>\<open>focusElement\<close> of utils/focus-management is not among the
  sources. The spec calls it imperative and unconditional: the element becomes the active
  element.
\<close>

definition focusElement :: "document \<Rightarrow> node \<Rightarrow> document" where
  "focusElement d el = d\<lparr>activeElement := Some el, calls := calls d @ [FocusElement el]\<rparr>"

text \<open>
  Modelled from the spec: \<^verbatim>\<open>focusIn\<close> of utils/focus-management is not among the
  sources. The spec describes it as the walker that finds the next, previous, first or
  last focusable element within a root, optionally skipping given elements, optionally
  wrapping around, optionally without scrolling, and that returns success or
  no-candidate-found. \<open>index_of\<close> is the position of an element in the focus order.
\<close>

fun index_of :: "node \<Rightarrow> node list \<Rightarrow> nat option" where
  "index_of x [] = None"
| "index_of x (y # ys) =
     (if x = y then Some 0 else map_option Suc (index_of x ys))"

text \<open>
  Modelled from the spec: the element \<^verbatim>\<open>focusIn\<close> finds among the candidates. The spec
  does not say what next and previous mean relative to no element, or to one that is not
  among the candidates; the model finds no candidate there.
\<close>

definition candidate :: "Focus set \<Rightarrow> node list \<Rightarrow> node option \<Rightarrow> node option" where
  "candidate focus elements relativeTo =
     (if elements = [] then None
      else if First \<in> focus then Some (hd elements)
      else if Last \<in> focus then Some (last elements)
      else (case relativeTo of
              None \<Rightarrow> None
            | Some r \<Rightarrow>
                (case index_of r elements of
                   None \<Rightarrow> None
                 | Some i \<Rightarrow>
                     if Next \<in> focus then
                       (if i + 1 < length elements then Some (elements ! (i + 1))
                        else if WrapAround \<in> focus then Some (hd elements)
                        else None)
                     else if Previous \<in> focus then
                       (if 0 < i then Some (elements ! (i - 1))
                        else if WrapAround \<in> focus then Some (last elements)
                        else None)
                     else None)))"

text \<open>
  Modelled from the spec: \<^verbatim>\<open>focusIn\<close> itself. The candidates are the focusable
  descendants of the root that are not to be skipped; the element found becomes the
  active element and the result is success; with no candidate the active element stays
  and the result is \<open>Error\<close>, the member the trap compares the result with.
\<close>

definition focusIn ::
  "document \<Rightarrow> node option \<Rightarrow> Focus set \<Rightarrow> node option list \<Rightarrow> node option
    \<Rightarrow> FocusResult \<times> document" where
  "focusIn d root focus skipElements relativeTo =
     (let d' = d\<lparr>calls := calls d @ [FocusIn root focus skipElements relativeTo]\<rparr>;
          elements =
            (case root of
               None \<Rightarrow> []
             | Some r \<Rightarrow> filter (\<lambda>x. Some x \<notin> set skipElements) (focusable d r))
      in case candidate focus elements relativeTo of
           None \<Rightarrow> (Error, d')
         | Some x \<Rightarrow> (Success, d'\<lparr>activeElement := Some x\<rparr>))"

text \<open>\<^verbatim>\<open>console.warn(msg)\<close>.\<close>

definition console_warn :: "document \<Rightarrow> string \<Rightarrow> document" where
  "console_warn d msg = d\<lparr>calls := calls d @ [ConsoleWarn msg]\<rparr>"

section \<open>The state of one trap\<close>

text \<open>
  The microtasks the trap schedules: the initial-focus decision, which captures
  \<^verbatim>\<open>containerElement\<close>, and the redirect of a sentinel's focus event, which captures the
  trap root and the event's \<^verbatim>\<open>relatedTarget\<close>.
\<close>

datatype task =
    InitialFocusDecision node
  | SentinelRedirect node "node option"

text \<open>
  The props and references of one \<^verbatim>\<open>FocusTrap\<close>: \<open>features\<close>, \<open>initialFocus\<close> and
  \<open>containers\<close> are the props (\<open>containers\<close> lists what the references of the set hold,
  in iteration order), \<open>container\<close> is the trap root, \<open>direction\<close> is the value of
  \<^verbatim>\<open>useTabDirection()\<close>, \<open>test_env\<close> is \<^verbatim>\<open>process.env.NODE_ENV === 'test'\<close>, and the
  rest are the references the hooks create. \<open>recentlyUsedTabKey\<close> is the flag that
  \<^verbatim>\<open>handleKeyDown\<close> sets on Tab and clears on the next animation frame; the handlers
  below only read it.
\<close>

record state =
  features :: Features
  initialFocus :: "node option"
  containers :: "node option list"
  container :: "node option"
  direction :: TabDirection
  recentlyUsedTabKey :: bool
  restoreElement :: "node option"
  previousActiveElement :: "node option"
  mounted :: bool
  test_env :: bool
  microTasks :: "task list"
  ownerDocument :: document

record focus_event =
  target :: "node option"
  relatedTarget :: "node option"
  preventDefault_called :: bool
  stopPropagation_called :: bool

text \<open>\<^verbatim>\<open>microTask(cb)\<close>: the callback joins the queue.\<close>

definition microTask :: "task \<Rightarrow> state \<Rightarrow> state" where
  "microTask t s = s\<lparr>microTasks := microTasks s @ [t]\<rparr>"

section \<open>Containment in the container set\<close>

text \<open>
  \<^verbatim>\<open>contains\<close> (lines 345 to 351): the first container whose element contains the
  element decides; a reference holding \<^verbatim>\<open>null\<close> is passed over.
\<close>

fun contains :: "document \<Rightarrow> node option list \<Rightarrow> node \<Rightarrow> bool" where
  "contains d [] element = False"
| "contains d (c # cs) element =
     (case c of
        None \<Rightarrow> contains d cs element
      | Some el \<Rightarrow> if node_contains d el element then True else contains d cs element)"

text \<open>
  \<^verbatim>\<open>new Set(containers?.value)\<close> followed by \<^verbatim>\<open>add(container)\<close>: the extra containers,
  then the trap root.
\<close>

definition allContainers :: "state \<Rightarrow> node option list" where
  "allContainers s = containers s @ [container s]"

text \<open>\<^verbatim>\<open>containerElement.contains(activeElement)\<close>; the DOM answers false for null.\<close>

definition element_contains :: "document \<Rightarrow> node \<Rightarrow> node option \<Rightarrow> bool" where
  "element_contains d el other =
     (case other of None \<Rightarrow> False | Some x \<Rightarrow> node_contains d el x)"

section \<open>The restore-focus manager\<close>

text \<open>\<^verbatim>\<open>useRestoreFocus\<close> (lines 182 to 220).\<close>

definition captureFocus :: "state \<Rightarrow> state" where
  "captureFocus s =
     (if restoreElement s \<noteq> None then s
      else s\<lparr>restoreElement := activeElement (ownerDocument s)\<rparr>)"

definition restoreFocusIfNeeded :: "state \<Rightarrow> state" where
  "restoreFocusIfNeeded s =
     (case restoreElement s of
        None \<Rightarrow> s
      | Some el \<Rightarrow>
          s\<lparr>ownerDocument := focusElement (ownerDocument s) el, restoreElement := None\<rparr>)"

text \<open>
  The callback of the watcher on the RestoreFocus flag; \<open>prevValue\<close> is \<open>None\<close> on the
  immediate first call, where Vue passes \<^verbatim>\<open>undefined\<close>.
\<close>

definition useRestoreFocus_watch :: "bool \<Rightarrow> bool option \<Rightarrow> state \<Rightarrow> state" where
  "useRestoreFocus_watch newValue prevValue s =
     (if Some newValue = prevValue then s
      else if newValue then captureFocus s
      else restoreFocusIfNeeded s)"

section \<open>The initial-focus manager\<close>

text \<open>
  \<^verbatim>\<open>useInitialFocus\<close> (lines 222 to 297). \<open>useInitialFocus_decision\<close> is the callback
  handed to \<^verbatim>\<open>microTask\<close> (lines 261 to 290).
\<close>

definition no_focusable_warning :: string where
  "no_focusable_warning = ''There are no focusable elements inside the <FocusTrap />''"

definition useInitialFocus_decision :: "node \<Rightarrow> state \<Rightarrow> state" where
  "useInitialFocus_decision containerElement s =
     (if \<not> mounted s then s
      else
        let initialFocusElement = dom (initialFocus s);
            active = activeElement (ownerDocument s)
        in case initialFocusElement of
             Some el \<Rightarrow>
               if initialFocusElement = active then s\<lparr>previousActiveElement := active\<rparr>
               else
                 (let d = focusElement (ownerDocument s) el
                  in s\<lparr>ownerDocument := d, previousActiveElement := activeElement d\<rparr>)
           | None \<Rightarrow>
               if element_contains (ownerDocument s) containerElement active
               then s\<lparr>previousActiveElement := active\<rparr>
               else
                 (let (r, d) =
                        focusIn (ownerDocument s) (Some containerElement) {First, NoScroll}
                          [] None;
                      d' = (if r = Error then console_warn d no_focusable_warning else d)
                  in s\<lparr>ownerDocument := d', previousActiveElement := activeElement d'\<rparr>))"

text \<open>
  The callback of the watcher on container, initial-focus target and the InitialFocus
  flag (lines 244 to 291). The new values are the ones the state holds when the callback
  runs; \<open>prevValues\<close> is \<open>None\<close> on the immediate first call.
\<close>

definition useInitialFocus_watch ::
  "(node option \<times> node option \<times> bool) option \<Rightarrow> state \<Rightarrow> state" where
  "useInitialFocus_watch prevValues s =
     (if prevValues = Some (container s, initialFocus s, enabled (features s) InitialFocus)
      then s
      else if \<not> enabled (features s) InitialFocus then s
      else (case dom (container s) of
              None \<Rightarrow> s
            | Some containerElement \<Rightarrow> microTask (InitialFocusDecision containerElement) s))"

section \<open>The focus-lock manager\<close>

text \<open>The listener \<^verbatim>\<open>useFocusLock\<close> installs for focus events (lines 317 to 340).\<close>

definition useFocusLock_listener :: "focus_event \<Rightarrow> state \<Rightarrow> focus_event \<times> state" where
  "useFocusLock_listener event s =
     (if \<not> enabled (features s) FocusLock then (event, s)
      else
        case previousActiveElement s of
          None \<Rightarrow> (event, s)
        | Some previous \<Rightarrow>
            (case target event of
               None \<Rightarrow> (event, s\<lparr>ownerDocument := focusElement (ownerDocument s) previous\<rparr>)
             | Some toElement \<Rightarrow>
                 if instanceof_HTMLElement (ownerDocument s) toElement then
                   (if \<not> contains (ownerDocument s) (allContainers s) toElement then
                      (event\<lparr>preventDefault_called := True, stopPropagation_called := True\<rparr>,
                       s\<lparr>ownerDocument := focusElement (ownerDocument s) previous\<rparr>)
                    else
                      (event,
                       s\<lparr>previousActiveElement := Some toElement,
                         ownerDocument := focusElement (ownerDocument s) toElement\<rparr>))
                 else
                   (event, s\<lparr>ownerDocument := focusElement (ownerDocument s) previous\<rparr>)))"

section \<open>Sentinels and the handlers on the trap root\<close>

text \<open>
  The callback \<^verbatim>\<open>handleFocus\<close> hands to \<^verbatim>\<open>wrapper\<close> (lines 90 to 97), and
  \<^verbatim>\<open>handleFocus\<close> itself (lines 84 to 98).
\<close>

definition handleFocus_redirect :: "node \<Rightarrow> node option \<Rightarrow> state \<Rightarrow> state" where
  "handleFocus_redirect el related s =
     (case direction s of
        Forwards \<Rightarrow>
          s\<lparr>ownerDocument := snd (focusIn (ownerDocument s) (Some el) {First} [related] None)\<rparr>
      | Backwards \<Rightarrow>
          s\<lparr>ownerDocument := snd (focusIn (ownerDocument s) (Some el) {Last} [related] None)\<rparr>)"

definition handleFocus :: "focus_event \<Rightarrow> state \<Rightarrow> state" where
  "handleFocus e s =
     (case dom (container s) of
        None \<Rightarrow> s
      | Some el \<Rightarrow>
          if test_env s then microTask (SentinelRedirect el (relatedTarget e)) s
          else handleFocus_redirect el (relatedTarget e) s)"

text \<open>\<^verbatim>\<open>handleBlur\<close> (lines 110 to 143).\<close>

definition handleBlur :: "focus_event \<Rightarrow> state \<Rightarrow> state" where
  "handleBlur e s =
     (case relatedTarget e of
        None \<Rightarrow> s
      | Some related \<Rightarrow>
          if headlessuiFocusGuard (ownerDocument s) related then s
          else if \<not> contains (ownerDocument s) (allContainers s) related then
            (if recentlyUsedTabKey s then
               s\<lparr>ownerDocument :=
                   snd (focusIn (ownerDocument s) (dom (container s))
                     ({case direction s of Forwards \<Rightarrow> Next | Backwards \<Rightarrow> Previous}
                        \<union> {WrapAround})
                     [] (target e))\<rparr>
             else
               (case target e of
                  None \<Rightarrow> s
                | Some t \<Rightarrow>
                    if instanceof_HTMLElement (ownerDocument s) t
                    then s\<lparr>ownerDocument := focusElement (ownerDocument s) t\<rparr>
                    else s))
          else s)"

text \<open>
  The children of the fragment the render function returns (lines 150 to 175):
  \<^verbatim>\<open>cond && h(Hidden, ...)\<close> is the sentinel or \<^verbatim>\<open>false\<close>.
\<close>

datatype child = FocusGuard | TrapRoot | VFalse

definition render :: "state \<Rightarrow> child list" where
  "render s =
     [if enabled (features s) TabLock then FocusGuard else VFalse,
      TrapRoot,
      if enabled (features s) TabLock then FocusGuard else VFalse]"

section \<open>Lifecycle and the microtask queue\<close>

text \<open>
  The hooks registered by \<^verbatim>\<open>setup\<close>, in registration order: on mount the restore-focus
  watcher fires at once, \<^verbatim>\<open>mounted\<close> is set and the initial-focus watcher fires; on
  unmount focus is restored and \<^verbatim>\<open>mounted\<close> is cleared.
\<close>

definition onMounted :: "state \<Rightarrow> state" where
  "onMounted s =
     useInitialFocus_watch None
       ((useRestoreFocus_watch (enabled (features s) RestoreFocus) None s)\<lparr>mounted := True\<rparr>)"

definition onUnmounted :: "state \<Rightarrow> state" where
  "onUnmounted s = (restoreFocusIfNeeded s)\<lparr>mounted := False\<rparr>"

definition run_task :: "task \<Rightarrow> state \<Rightarrow> state" where
  "run_task t s =
     (case t of
        InitialFocusDecision containerElement \<Rightarrow> useInitialFocus_decision containerElement s
      | SentinelRedirect el related \<Rightarrow> handleFocus_redirect el related s)"

text \<open>The microtask checkpoint: the queued callbacks run in order, each on the state
  the one before it left.\<close>

fun run_tasks :: "task list \<Rightarrow> state \<Rightarrow> state" where
  "run_tasks [] s = s"
| "run_tasks (t # ts) s = run_tasks ts (run_task t s)"

definition flush_microTasks :: "state \<Rightarrow> state" where
  "flush_microTasks s = run_tasks (microTasks s) (s\<lparr>microTasks := []\<rparr>)"

section \<open>A concrete document\<close>

text \<open>
  A small page on which the handlers are run: node 0 is the body; node 10 is a trap root
  with the focusable descendants 2, 3 and 4, of which 4 is focusable but no
  \<^verbatim>\<open>HTMLElement\<close> (a link inside an SVG image); node 5 is an extra container with the
  focusable descendant 6; node 7 is a trap root with no focusable descendant; node 8
  is a sentinel; node 9 is a button outside every container, and has the focus.
\<close>

definition example_document :: document where
  "example_document =
     \<lparr>activeElement = Some 9,
      node_contains =
        (\<lambda>a b. a = b \<or> a = 0 \<or> (a = 10 \<and> b \<in> {2, 3, 4}) \<or> (a = 5 \<and> b = 6)),
      instanceof_HTMLElement = (\<lambda>x. x \<noteq> 4),
      headlessuiFocusGuard = (\<lambda>x. x = 8),
      focusable = (\<lambda>r. if r = 10 then [2, 3, 4] else if r = 5 then [6] else []),
      calls = []\<rparr>"

definition example_state :: state where
  "example_state =
     \<lparr>features = Features_All, initialFocus = None, containers = [Some 5],
      container = Some 10, direction = Forwards, recentlyUsedTabKey = False,
      restoreElement = None, previousActiveElement = None, mounted = True,
      test_env = False, microTasks = [], ownerDocument = example_document\<rparr>"

definition example_event :: "node option \<Rightarrow> node option \<Rightarrow> focus_event" where
  "example_event t r =
     \<lparr>target = t, relatedTarget = r, preventDefault_called = False,
      stopPropagation_called = False\<rparr>"

section \<open>Supporting lemmas\<close>

lemmas example_defs = example_document_def example_state_def example_event_def

lemma contains_iff:
  "contains d cs x \<longleftrightarrow> (\<exists>el. Some el \<in> set cs \<and> node_contains d el x)"
  by (induction cs) (auto split: option.splits)

lemma index_of_Some: "index_of x xs = Some i \<Longrightarrow> i < length xs \<and> xs ! i = x"
  by (induction xs arbitrary: i) (auto split: if_splits)

lemma candidate_Nil: "candidate focus [] r = None"
  by (simp add: candidate_def)

lemma candidate_First: "xs \<noteq> [] \<Longrightarrow> First \<in> focus \<Longrightarrow> candidate focus xs r = Some (hd xs)"
  by (simp add: candidate_def)

lemma candidate_Last: "xs \<noteq> [] \<Longrightarrow> candidate {Last} xs r = Some (last xs)"
  by (simp add: candidate_def)

lemma candidate_Next_wrap:
  assumes "index_of t xs = Some i"
  shows "candidate {Next, WrapAround} xs (Some t) = Some (xs ! ((i + 1) mod length xs))"
proof -
  from assms have i: "i < length xs" by (simp add: index_of_Some)
  then have ne: "xs \<noteq> []" by auto
  show ?thesis
  proof (cases "i + 1 < length xs")
    case True
    with assms ne show ?thesis by (simp add: candidate_def)
  next
    case False
    with i have "i + 1 = length xs" by simp
    with assms ne False show ?thesis
      by (simp add: candidate_def hd_conv_nth)
  qed
qed

lemma candidate_Previous_wrap:
  assumes "index_of t xs = Some i"
  shows "candidate {Previous, WrapAround} xs (Some t)
    = Some (xs ! ((i + length xs - 1) mod length xs))"
proof -
  from assms have i: "i < length xs" by (simp add: index_of_Some)
  then have ne: "xs \<noteq> []" by auto
  show ?thesis
  proof (cases "0 < i")
    case True
    with i have "(i + length xs - 1) mod length xs = i - 1"
      by (simp add: mod_if)
    with assms ne True show ?thesis by (simp add: candidate_def)
  next
    case False
    with i have "(i + length xs - 1) mod length xs = length xs - 1" by simp
    with assms ne False show ?thesis
      by (simp add: candidate_def last_conv_nth)
  qed
qed


section \<open>The feature bitmask\<close>

lemma Features_values:
  "Features_None = 1" "InitialFocus = 2" "TabLock = 4" "FocusLock = 8" "RestoreFocus = 16"
  by (simp_all add: Features_None_def InitialFocus_def TabLock_def FocusLock_def
      RestoreFocus_def)

lemma Features_All_value: "Features_All = 30"
  by (simp add: Features_All_def Features_values)

lemma toggled_flags:
  fixes a b c d :: bool
  defines "fs \<equiv> (if a then InitialFocus else 0) OR (if b then TabLock else 0)
      OR (if c then FocusLock else 0) OR (if d then RestoreFocus else 0)"
  shows "enabled fs InitialFocus = a" "enabled fs TabLock = b"
    "enabled fs FocusLock = c" "enabled fs RestoreFocus = d"
  unfolding fs_def enabled_def Features_values
  by (cases a; cases b; cases c; cases d; simp)+

text \<open>
  C3, as the spec states it, asks for \<open>None = 0\<close>. The enum declares
  \<^verbatim>\<open>None = 1 << 0\<close>, which is 1.
\<close>

theorem Features_None_not_zero: "Features_None \<noteq> 0"
  by (simp add: Features_values)

text \<open>
  C3 (amended): \<open>None\<close> is the single bit 0, which is 1 and not 0; it shares no bit with
  the four features, so a mask equal to \<open>None\<close> enables none of them. InitialFocus,
  TabLock, FocusLock and RestoreFocus are the distinct single bits 1 to 4; any choice of
  the four can be switched on independently of the others; and \<open>All\<close> is the bitwise OR
  of the four (30).
\<close>

theorem Features_bitmask:
  fixes a b c d :: bool
  defines "fs \<equiv> (if a then InitialFocus else 0) OR (if b then TabLock else 0)
      OR (if c then FocusLock else 0) OR (if d then RestoreFocus else 0)"
  shows "Features_None = 2 ^ 0 \<and> Features_None AND Features_All = 0
    \<and> enabled Features_None InitialFocus = False \<and> enabled Features_None TabLock = False
    \<and> enabled Features_None FocusLock = False \<and> enabled Features_None RestoreFocus = False
    \<and> InitialFocus = 2 ^ 1 \<and> TabLock = 2 ^ 2 \<and> FocusLock = 2 ^ 3 \<and> RestoreFocus = 2 ^ 4
    \<and> distinct [InitialFocus, TabLock, FocusLock, RestoreFocus]
    \<and> enabled fs InitialFocus = a \<and> enabled fs TabLock = b
    \<and> enabled fs FocusLock = c \<and> enabled fs RestoreFocus = d
    \<and> Features_All = InitialFocus OR TabLock OR FocusLock OR RestoreFocus
    \<and> Features_All = 30"
proof -
  have none: "Features_None = 2 ^ 0 \<and> Features_None AND Features_All = 0
    \<and> enabled Features_None InitialFocus = False \<and> enabled Features_None TabLock = False
    \<and> enabled Features_None FocusLock = False \<and> enabled Features_None RestoreFocus = False"
    by (simp add: Features_values Features_All_value enabled_def)
  have bits: "InitialFocus = 2 ^ 1 \<and> TabLock = 2 ^ 2 \<and> FocusLock = 2 ^ 3 \<and> RestoreFocus = 2 ^ 4
    \<and> distinct [InitialFocus, TabLock, FocusLock, RestoreFocus]"
    by (simp add: Features_values)
  have toggle: "enabled fs InitialFocus = a \<and> enabled fs TabLock = b
    \<and> enabled fs FocusLock = c \<and> enabled fs RestoreFocus = d"
    unfolding fs_def by (simp add: toggled_flags)
  have all: "Features_All = InitialFocus OR TabLock OR FocusLock OR RestoreFocus
    \<and> Features_All = 30"
    by (simp add: Features_All_value) (simp add: Features_values)
  from none bits toggle all show ?thesis by blast
qed

section \<open>Properties of the focus-lock manager\<close>

lemma contains_allContainers:
  "contains d (allContainers s) x \<longleftrightarrow>
     (\<exists>el. (Some el \<in> set (containers s) \<or> container s = Some el) \<and> node_contains d el x)"
proof -
  have "Some el \<in> set (allContainers s)
      \<longleftrightarrow> Some el \<in> set (containers s) \<or> container s = Some el" for el
    by (auto simp: allContainers_def)
  then show ?thesis by (simp add: contains_iff)
qed

text \<open>
  C1, as the spec states it, speaks of every target that is an element. The listener
  accepts a target only when it is an \<^verbatim>\<open>HTMLElement\<close>: the link 4 is an element
  inside the trap root 10, yet when focus lands on it, with element 2 recorded, Previous
  Active Element stays 2 and the focus is sent back to 2.
\<close>

theorem useFocusLock_target_not_HTMLElement:
  "enabled (features (example_state\<lparr>previousActiveElement := Some 2\<rparr>)) FocusLock
   \<and> previousActiveElement (example_state\<lparr>previousActiveElement := Some 2\<rparr>) = Some 2
   \<and> target (example_event (Some 4) None) = Some 4
   \<and> contains example_document
        (allContainers (example_state\<lparr>previousActiveElement := Some 2\<rparr>)) 4
   \<and> previousActiveElement (snd (useFocusLock_listener (example_event (Some 4) None)
        (example_state\<lparr>previousActiveElement := Some 2\<rparr>))) = Some 2
   \<and> activeElement (ownerDocument (snd (useFocusLock_listener (example_event (Some 4) None)
        (example_state\<lparr>previousActiveElement := Some 2\<rparr>)))) = Some 2
   \<and> calls (ownerDocument (snd (useFocusLock_listener (example_event (Some 4) None)
        (example_state\<lparr>previousActiveElement := Some 2\<rparr>)))) = [FocusElement 2]"
  by (simp add: useFocusLock_listener_def example_defs allContainers_def enabled_def
      Features_All_value Features_values focusElement_def)

text \<open>
  C1 (amended): with FocusLock enabled and a Previous Active Element recorded, a focus
  event whose target is an \<^verbatim>\<open>HTMLElement\<close> is handled as follows. The target counts
  as inside when an extra container or the trap root contains it. Inside: the event is
  left alone, Previous Active Element becomes the target and focus is applied to the
  target again. Outside: \<^verbatim>\<open>preventDefault\<close> and \<^verbatim>\<open>stopPropagation\<close> are called on
  the event, focus goes back to the recorded element, and nothing else of the trap
  changes.
\<close>

theorem useFocusLock_element_target:
  assumes "enabled (features s) FocusLock"
    and "previousActiveElement s = Some previous"
    and "target event = Some toElement"
    and "instanceof_HTMLElement (ownerDocument s) toElement"
  shows "useFocusLock_listener event s =
      (if \<exists>el. (Some el \<in> set (containers s) \<or> container s = Some el)
              \<and> node_contains (ownerDocument s) el toElement
       then (event,
             s\<lparr>previousActiveElement := Some toElement,
               ownerDocument := (ownerDocument s)
                 \<lparr>activeElement := Some toElement,
                  calls := calls (ownerDocument s) @ [FocusElement toElement]\<rparr>\<rparr>)
       else (event\<lparr>preventDefault_called := True, stopPropagation_called := True\<rparr>,
             s\<lparr>ownerDocument := (ownerDocument s)
                 \<lparr>activeElement := Some previous,
                  calls := calls (ownerDocument s) @ [FocusElement previous]\<rparr>\<rparr>))"
proof -
  have "useFocusLock_listener event s =
      (if contains (ownerDocument s) (allContainers s) toElement
       then (event,
             s\<lparr>previousActiveElement := Some toElement,
               ownerDocument := (ownerDocument s)
                 \<lparr>activeElement := Some toElement,
                  calls := calls (ownerDocument s) @ [FocusElement toElement]\<rparr>\<rparr>)
       else (event\<lparr>preventDefault_called := True, stopPropagation_called := True\<rparr>,
             s\<lparr>ownerDocument := (ownerDocument s)
                 \<lparr>activeElement := Some previous,
                  calls := calls (ownerDocument s) @ [FocusElement previous]\<rparr>\<rparr>))"
    using assms by (simp add: useFocusLock_listener_def focusElement_def)
  then show ?thesis by (simp only: contains_allContainers)
qed

text \<open>
  On the concrete page, with element 2 recorded: focus landing on the outside button 9 is
  cancelled and sent back to 2; focus landing on 6, inside the extra container 5, is
  accepted.
\<close>

theorem useFocusLock_element_target_witness:
  "enabled (features (example_state\<lparr>previousActiveElement := Some 2\<rparr>)) FocusLock
   \<and> instanceof_HTMLElement example_document 9
   \<and> instanceof_HTMLElement example_document 6
   \<and> useFocusLock_listener (example_event (Some 9) None)
        (example_state\<lparr>previousActiveElement := Some 2\<rparr>)
      = ((example_event (Some 9) None)
           \<lparr>preventDefault_called := True, stopPropagation_called := True\<rparr>,
         example_state
           \<lparr>previousActiveElement := Some 2,
            ownerDocument := example_document
              \<lparr>activeElement := Some 2, calls := [FocusElement 2]\<rparr>\<rparr>)
   \<and> useFocusLock_listener (example_event (Some 6) None)
        (example_state\<lparr>previousActiveElement := Some 2\<rparr>)
      = (example_event (Some 6) None,
         example_state
           \<lparr>previousActiveElement := Some 6,
            ownerDocument := example_document
              \<lparr>activeElement := Some 6, calls := [FocusElement 6]\<rparr>\<rparr>)"
proof -
  let ?s = "example_state\<lparr>previousActiveElement := Some 2\<rparr>"
  have en: "enabled (features ?s) FocusLock"
    by (simp add: example_state_def enabled_def Features_All_value Features_values)
  have prev: "previousActiveElement ?s = Some 2" by simp
  have h9: "instanceof_HTMLElement (ownerDocument ?s) 9"
    and h6: "instanceof_HTMLElement (ownerDocument ?s) 6"
    by (simp_all add: example_defs)
  have t9: "target (example_event (Some 9) None) = Some 9"
    and t6: "target (example_event (Some 6) None) = Some 6"
    by (simp_all add: example_event_def)
  have d: "ownerDocument ?s = example_document" by (simp add: example_state_def)
  have out: "\<not> (\<exists>el. (Some el \<in> set (containers ?s) \<or> container ?s = Some el)
      \<and> node_contains (ownerDocument ?s) el 9)"
    by (auto simp: example_defs)
  have ins: "\<exists>el. (Some el \<in> set (containers ?s) \<or> container ?s = Some el)
      \<and> node_contains (ownerDocument ?s) el 6"
    by (rule exI [of _ 5]) (simp add: example_defs)
  from useFocusLock_element_target [OF en prev t9 h9] out
  have r9: "useFocusLock_listener (example_event (Some 9) None) ?s
      = ((example_event (Some 9) None)
           \<lparr>preventDefault_called := True, stopPropagation_called := True\<rparr>,
         ?s\<lparr>ownerDocument := (ownerDocument ?s)
             \<lparr>activeElement := Some 2, calls := calls (ownerDocument ?s) @ [FocusElement 2]\<rparr>\<rparr>)"
    by (simp only: if_False)
  from useFocusLock_element_target [OF en prev t6 h6] ins
  have r6: "useFocusLock_listener (example_event (Some 6) None) ?s
      = (example_event (Some 6) None,
         ?s\<lparr>previousActiveElement := Some 6,
            ownerDocument := (ownerDocument ?s)
             \<lparr>activeElement := Some 6, calls := calls (ownerDocument ?s) @ [FocusElement 6]\<rparr>\<rparr>)"
    by (simp only: if_True)
  have c: "calls example_document = []" by (simp add: example_document_def)
  from en h9 h6 r9 r6 show ?thesis
    by (simp add: d c)
qed

text \<open>
  C10: a focus event whose target is an element outside the effective container set
  leaves Previous Active Element as it was; and whenever the listener changes Previous
  Active Element, it took the accept branch: FocusLock was enabled, an element was
  recorded, and the event's target is an element inside the container set, which is the
  value now recorded.
\<close>

theorem useFocusLock_previous_frame:
  "(target event = Some t \<and> instanceof_HTMLElement (ownerDocument s) t
      \<and> \<not> contains (ownerDocument s) (allContainers s) t
     \<longrightarrow> previousActiveElement (snd (useFocusLock_listener event s))
          = previousActiveElement s)
   \<and> (previousActiveElement (snd (useFocusLock_listener event s)) \<noteq> previousActiveElement s
     \<longrightarrow> (\<exists>x. target event = Some x \<and> instanceof_HTMLElement (ownerDocument s) x
            \<and> contains (ownerDocument s) (allContainers s) x
            \<and> enabled (features s) FocusLock \<and> previousActiveElement s \<noteq> None
            \<and> previousActiveElement (snd (useFocusLock_listener event s)) = Some x))"
  by (auto simp: useFocusLock_listener_def split: option.splits if_splits)

theorem useFocusLock_previous_frame_witness:
  "target (example_event (Some 9) None) = Some 9
   \<and> instanceof_HTMLElement example_document 9
   \<and> \<not> contains example_document
         (allContainers (example_state\<lparr>previousActiveElement := Some 2\<rparr>)) 9
   \<and> previousActiveElement (snd (useFocusLock_listener (example_event (Some 9) None)
         (example_state\<lparr>previousActiveElement := Some 2\<rparr>))) = Some 2
   \<and> previousActiveElement (snd (useFocusLock_listener (example_event (Some 3) None)
         (example_state\<lparr>previousActiveElement := Some 2\<rparr>))) = Some 3
   \<and> contains example_document
         (allContainers (example_state\<lparr>previousActiveElement := Some 2\<rparr>)) 3"
proof -
  let ?s = "example_state\<lparr>previousActiveElement := Some 2\<rparr>"
  have d: "ownerDocument ?s = example_document" by (simp add: example_state_def)
  have a: "target (example_event (Some 9) None) = Some 9
      \<and> instanceof_HTMLElement (ownerDocument ?s) 9
      \<and> \<not> contains (ownerDocument ?s) (allContainers ?s) 9"
    by (simp add: example_defs allContainers_def)
  have b: "previousActiveElement (snd (useFocusLock_listener (example_event (Some 3) None) ?s))
      \<noteq> previousActiveElement ?s"
    by (simp add: useFocusLock_listener_def example_defs allContainers_def enabled_def
        Features_All_value Features_values)
  from useFocusLock_previous_frame [of "example_event (Some 9) None" 9 ?s] a
  have r9: "previousActiveElement (snd (useFocusLock_listener (example_event (Some 9) None) ?s))
      = previousActiveElement ?s"
    by blast
  from useFocusLock_previous_frame [of "example_event (Some 3) None" 9 ?s] b
  have r3: "\<exists>x. target (example_event (Some 3) None) = Some x
      \<and> contains (ownerDocument ?s) (allContainers ?s) x
      \<and> previousActiveElement (snd (useFocusLock_listener (example_event (Some 3) None) ?s))
          = Some x"
    by blast
  have t3: "target (example_event (Some 3) None) = Some 3" by (simp add: example_event_def)
  from r3 t3 have r3': "contains (ownerDocument ?s) (allContainers ?s) 3
      \<and> previousActiveElement (snd (useFocusLock_listener (example_event (Some 3) None) ?s))
          = Some 3"
    by auto
  from a r9 r3' show ?thesis by (simp add: d)
qed

section \<open>Properties of the initial-focus manager\<close>

lemma useInitialFocus_watch_runs:
  assumes "enabled (features s) InitialFocus" and "container s = Some containerElement"
    and "prevValues \<noteq> Some (container s, initialFocus s, True)"
    and "microTasks s = []"
  shows "flush_microTasks (useInitialFocus_watch prevValues s)
    = useInitialFocus_decision containerElement s"
proof -
  from assms(4) have eq: "s\<lparr>microTasks := []\<rparr> = s" by simp
  from assms have "flush_microTasks (useInitialFocus_watch prevValues s)
      = useInitialFocus_decision containerElement (s\<lparr>microTasks := []\<rparr>)"
    by (simp add: useInitialFocus_watch_def dom_def microTask_def flush_microTasks_def
        run_task_def)
  then show ?thesis by (simp only: eq)
qed

lemma focusIn_First_NoScroll:
  "focusIn d (Some root) {First, NoScroll} [] None =
     (case focusable d root of
        [] \<Rightarrow> (Error, d\<lparr>calls := calls d @ [FocusIn (Some root) {First, NoScroll} [] None]\<rparr>)
      | x # xs \<Rightarrow>
          (Success,
           d\<lparr>activeElement := Some x,
             calls := calls d @ [FocusIn (Some root) {First, NoScroll} [] None]\<rparr>))"
  by (simp add: focusIn_def candidate_def split: list.splits)

text \<open>
  C4: when the decision runs (the component is still mounted) with no explicit
  initial-focus target and the active element not inside the container, it calls
  \<^verbatim>\<open>focusIn\<close> on the container with \<^verbatim>\<open>Focus.First | Focus.NoScroll\<close>. If the container
  has a focusable descendant, the first one becomes the active element. If it has none,
  the warning is written after the call and the active element is the one it was. The
  decision does not look at the InitialFocus flag, which is tested when it is scheduled.
\<close>

theorem useInitialFocus_first_focusable:
  assumes "mounted s" and "initialFocus s = None"
    and "\<not> element_contains (ownerDocument s) containerElement
           (activeElement (ownerDocument s))"
  shows "ownerDocument (useInitialFocus_decision containerElement s) =
     (case focusable (ownerDocument s) containerElement of
        [] \<Rightarrow>
          (ownerDocument s)
            \<lparr>calls := calls (ownerDocument s)
               @ [FocusIn (Some containerElement) {First, NoScroll} [] None,
                  ConsoleWarn no_focusable_warning]\<rparr>
      | x # xs \<Rightarrow>
          (ownerDocument s)
            \<lparr>activeElement := Some x,
             calls := calls (ownerDocument s)
               @ [FocusIn (Some containerElement) {First, NoScroll} [] None]\<rparr>)"
  using assms
  by (simp add: useInitialFocus_decision_def dom_def focusIn_First_NoScroll console_warn_def
      split: list.splits)

text \<open>
  On the concrete page, where the outside button 9 has the focus: for the trap root 10 the
  focus moves to its first focusable descendant 2; for the trap root 7, which has no
  focusable descendant, the warning is written and 9 keeps the focus.
\<close>

theorem useInitialFocus_first_focusable_witness:
  "mounted example_state \<and> initialFocus example_state = None
   \<and> \<not> element_contains example_document 10 (activeElement example_document)
   \<and> \<not> element_contains example_document 7 (activeElement example_document)
   \<and> ownerDocument (useInitialFocus_decision 10 example_state)
      = example_document
          \<lparr>activeElement := Some 2,
           calls := [FocusIn (Some 10) {First, NoScroll} [] None]\<rparr>
   \<and> ownerDocument (useInitialFocus_decision 7 example_state)
      = example_document
          \<lparr>calls := [FocusIn (Some 7) {First, NoScroll} [] None,
                     ConsoleWarn no_focusable_warning]\<rparr>"
proof -
  have d: "ownerDocument example_state = example_document" by (simp add: example_state_def)
  have m: "mounted example_state" and i: "initialFocus example_state = None"
    by (simp_all add: example_state_def)
  have o1: "\<not> element_contains (ownerDocument example_state) 10
      (activeElement (ownerDocument example_state))"
    and o7: "\<not> element_contains (ownerDocument example_state) 7
      (activeElement (ownerDocument example_state))"
    by (simp_all add: example_defs element_contains_def)
  have f: "focusable example_document 10 = [2, 3, 4]" "focusable example_document 7 = []"
    "calls example_document = []"
    by (simp_all add: example_document_def)
  from useInitialFocus_first_focusable [OF m i o1] useInitialFocus_first_focusable [OF m i o7]
    m i o1 o7
  show ?thesis by (simp add: d f)
qed

text \<open>
  C8: when the decision runs with an explicit initial-focus target that is the active
  element, or with no explicit target while the container contains the active element,
  the only change is that Previous Active Element becomes the active element: no call is
  made to a collaborator and the document is as it was.
\<close>

theorem useInitialFocus_already_focused:
  assumes "mounted s"
    and "(initialFocus s \<noteq> None \<and> initialFocus s = activeElement (ownerDocument s))
       \<or> (initialFocus s = None
           \<and> element_contains (ownerDocument s) containerElement
                (activeElement (ownerDocument s)))"
  shows "useInitialFocus_decision containerElement s
      = s\<lparr>previousActiveElement := activeElement (ownerDocument s)\<rparr>
    \<and> ownerDocument (useInitialFocus_decision containerElement s) = ownerDocument s"
proof (cases "initialFocus s")
  case None
  with assms show ?thesis
    by (simp add: useInitialFocus_decision_def dom_def)
next
  case (Some el)
  with assms(2) have "activeElement (ownerDocument s) = Some el" by auto
  with Some assms(1) show ?thesis
    by (simp add: useInitialFocus_decision_def dom_def)
qed

theorem useInitialFocus_already_focused_witness:
  "useInitialFocus_decision 10
       (example_state\<lparr>initialFocus := Some 9\<rparr>)
     = example_state\<lparr>initialFocus := Some 9, previousActiveElement := Some 9\<rparr>
   \<and> useInitialFocus_decision 0 example_state
     = example_state\<lparr>previousActiveElement := Some 9\<rparr>"
proof -
  let ?s = "example_state\<lparr>initialFocus := Some 9\<rparr>"
  have m: "mounted ?s" "mounted example_state" by (simp_all add: example_state_def)
  have a: "activeElement (ownerDocument ?s) = Some 9"
    "activeElement (ownerDocument example_state) = Some 9"
    by (simp_all add: example_defs)
  have h1: "(initialFocus ?s \<noteq> None \<and> initialFocus ?s = activeElement (ownerDocument ?s))
       \<or> (initialFocus ?s = None
           \<and> element_contains (ownerDocument ?s) 10 (activeElement (ownerDocument ?s)))"
    by (simp add: a)
  have h2: "(initialFocus example_state \<noteq> None
          \<and> initialFocus example_state = activeElement (ownerDocument example_state))
       \<or> (initialFocus example_state = None
           \<and> element_contains (ownerDocument example_state) 0
               (activeElement (ownerDocument example_state)))"
    by (simp add: example_defs element_contains_def)
  from useInitialFocus_already_focused [OF m(1) h1]
    useInitialFocus_already_focused [OF m(2) h2]
  show ?thesis by (simp add: a)
qed

lemma run_tasks_unmounted:
  "\<not> mounted s \<Longrightarrow> run_tasks (map InitialFocusDecision cs) s = s"
  by (induction cs) (simp_all add: run_task_def useInitialFocus_decision_def)

text \<open>
  C9: a decision that runs after the component was unmounted changes nothing. So when
  the component is unmounted while decisions are pending, running the microtasks leaves
  the state as the unmount left it (the queue apart, which is now empty): no focus is
  moved and Previous Active Element is unchanged.
\<close>

theorem useInitialFocus_cancelled:
  "(\<not> mounted s \<longrightarrow> useInitialFocus_decision containerElement s = s)
   \<and> (microTasks s = map InitialFocusDecision cs
      \<longrightarrow> flush_microTasks (onUnmounted s) = (onUnmounted s)\<lparr>microTasks := []\<rparr>)"
proof -
  have "microTasks (onUnmounted s) = microTasks s"
    by (simp add: onUnmounted_def restoreFocusIfNeeded_def split: option.splits)
  moreover have "\<not> mounted ((onUnmounted s)\<lparr>microTasks := []\<rparr>)"
    by (simp add: onUnmounted_def)
  ultimately show ?thesis
    by (simp add: flush_microTasks_def run_tasks_unmounted useInitialFocus_decision_def)
qed

text \<open>
  On the concrete page: the trap is mounted, which schedules the decision; it is
  unmounted before the microtask runs; the microtask then changes nothing, where it
  would have moved the focus to element 2 had the trap stayed mounted.
\<close>

theorem useInitialFocus_cancelled_witness:
  "microTasks (onMounted (example_state\<lparr>mounted := False\<rparr>)) = map InitialFocusDecision [10]
   \<and> flush_microTasks (onUnmounted (onMounted (example_state\<lparr>mounted := False\<rparr>)))
      = (onUnmounted (onMounted (example_state\<lparr>mounted := False\<rparr>)))\<lparr>microTasks := []\<rparr>
   \<and> \<not> mounted (onUnmounted example_state)
   \<and> useInitialFocus_decision 10 (onUnmounted example_state) = onUnmounted example_state
   \<and> activeElement (ownerDocument (flush_microTasks (onMounted (example_state\<lparr>mounted := False\<rparr>))))
      = Some 2"
proof -
  let ?s = "onMounted (example_state\<lparr>mounted := False\<rparr>)"
  have en: "enabled Features_All RestoreFocus" "enabled Features_All InitialFocus"
    by (simp_all add: enabled_def Features_All_value Features_values)
  have q: "microTasks ?s = map InitialFocusDecision [10]"
    by (simp add: onMounted_def example_defs useRestoreFocus_watch_def captureFocus_def
        useInitialFocus_watch_def microTask_def dom_def en)
  have u: "\<not> mounted (onUnmounted example_state)" by (simp add: onUnmounted_def)
  have run: "activeElement (ownerDocument (flush_microTasks ?s)) = Some 2"
    by (simp add: onMounted_def example_defs useRestoreFocus_watch_def captureFocus_def
        useInitialFocus_watch_def microTask_def dom_def en flush_microTasks_def run_task_def
        useInitialFocus_decision_def element_contains_def focusIn_First_NoScroll)
  from useInitialFocus_cancelled [of "onUnmounted example_state" 10 "[]"]
    useInitialFocus_cancelled [of ?s 10 "[10]"] q u run
  show ?thesis by simp
qed

section \<open>What Previous Active Element is assigned\<close>

lemma previousActiveElement_handlers:
  "previousActiveElement (handleBlur e s) = previousActiveElement s"
  "previousActiveElement (handleFocus_redirect el related s) = previousActiveElement s"
  "previousActiveElement (handleFocus e s) = previousActiveElement s"
  "previousActiveElement (restoreFocusIfNeeded s) = previousActiveElement s"
  "previousActiveElement (useRestoreFocus_watch newValue prevValue s) = previousActiveElement s"
  "previousActiveElement (useInitialFocus_watch prevValues s) = previousActiveElement s"
  by (simp_all add: handleBlur_def handleFocus_redirect_def handleFocus_def microTask_def
      restoreFocusIfNeeded_def useRestoreFocus_watch_def captureFocus_def
      useInitialFocus_watch_def
      split: option.splits TabDirection.splits)

lemma previousActiveElement_lifecycle:
  "previousActiveElement (onUnmounted s) = previousActiveElement s"
  "previousActiveElement (onMounted s) = previousActiveElement s"
  by (simp_all add: onUnmounted_def onMounted_def previousActiveElement_handlers)

text \<open>
  C2, as the spec states it, fails where the trap root has no focusable descendant:
  mounting the trap on root 7 while the outside button 9 has the focus records 9 as
  Previous Active Element, though no container contains 9 and there is no initial-focus
  target.
\<close>

theorem previousActiveElement_outside:
  "previousActiveElement (example_state\<lparr>container := Some 7, mounted := False\<rparr>) = None
   \<and> previousActiveElement
       (flush_microTasks (onMounted (example_state\<lparr>container := Some 7, mounted := False\<rparr>)))
      = Some 9
   \<and> \<not> contains example_document
         (allContainers (example_state\<lparr>container := Some 7, mounted := False\<rparr>)) 9
   \<and> initialFocus (example_state\<lparr>container := Some 7, mounted := False\<rparr>) = None"
proof -
  have en: "enabled Features_All RestoreFocus" "enabled Features_All InitialFocus"
    by (simp_all add: enabled_def Features_All_value Features_values)
  show ?thesis
    by (simp add: onMounted_def example_defs useRestoreFocus_watch_def captureFocus_def
        useInitialFocus_watch_def microTask_def dom_def en flush_microTasks_def run_task_def
        useInitialFocus_decision_def element_contains_def focusIn_First_NoScroll
        console_warn_def allContainers_def Let_def)
qed

text \<open>
  C2 (amended): every assignment to Previous Active Element stores the document's active
  element of that moment. A decision of the initial-focus manager that runs while mounted
  stores: the explicit initial-focus target, when there is one (it is the active element
  already, or has just been focused); with no explicit target, the active element when
  the container contains it; and otherwise the active element the \<^verbatim>\<open>focusIn\<close> attempt
  leaves, which is the container's first focusable descendant when it has one and the
  unchanged active element, outside the container and not verified, when it has none. A
  decision that runs after the unmount stores nothing. The focus-lock listener stores
  only the event's target, after the containment check against the effective container
  set succeeded. No other operation of the trap assigns it.
\<close>

theorem previousActiveElement_assignments:
  "(mounted s \<longrightarrow>
      previousActiveElement (useInitialFocus_decision c s)
        = activeElement (ownerDocument (useInitialFocus_decision c s))
      \<and> activeElement (ownerDocument (useInitialFocus_decision c s)) =
          (case initialFocus s of
             Some el \<Rightarrow> Some el
           | None \<Rightarrow>
               if element_contains (ownerDocument s) c (activeElement (ownerDocument s))
               then activeElement (ownerDocument s)
               else (case focusable (ownerDocument s) c of
                       [] \<Rightarrow> activeElement (ownerDocument s)
                     | x # xs \<Rightarrow> Some x)))
   \<and> (\<not> mounted s \<longrightarrow>
        previousActiveElement (useInitialFocus_decision c s) = previousActiveElement s)
   \<and> (previousActiveElement (snd (useFocusLock_listener event s)) \<noteq> previousActiveElement s
      \<longrightarrow> (\<exists>x. previousActiveElement (snd (useFocusLock_listener event s)) = Some x
             \<and> activeElement (ownerDocument (snd (useFocusLock_listener event s))) = Some x
             \<and> target event = Some x
             \<and> contains (ownerDocument s) (allContainers s) x))
   \<and> previousActiveElement (handleBlur e s) = previousActiveElement s
   \<and> previousActiveElement (handleFocus e s) = previousActiveElement s
   \<and> previousActiveElement (handleFocus_redirect el related s) = previousActiveElement s
   \<and> previousActiveElement (useRestoreFocus_watch newValue prevValue s)
        = previousActiveElement s
   \<and> previousActiveElement (useInitialFocus_watch prevValues s) = previousActiveElement s
   \<and> previousActiveElement (onMounted s) = previousActiveElement s
   \<and> previousActiveElement (onUnmounted s) = previousActiveElement s"
proof -
  have decision: "previousActiveElement (useInitialFocus_decision c s)
        = activeElement (ownerDocument (useInitialFocus_decision c s))
      \<and> activeElement (ownerDocument (useInitialFocus_decision c s)) =
          (case initialFocus s of
             Some el \<Rightarrow> Some el
           | None \<Rightarrow>
               if element_contains (ownerDocument s) c (activeElement (ownerDocument s))
               then activeElement (ownerDocument s)
               else (case focusable (ownerDocument s) c of
                       [] \<Rightarrow> activeElement (ownerDocument s)
                     | x # xs \<Rightarrow> Some x))"
    if "mounted s"
  proof (cases "initialFocus s")
    case None
    with that show ?thesis
      by (simp add: useInitialFocus_decision_def dom_def focusIn_First_NoScroll
          console_warn_def split: list.splits)
  next
    case (Some el)
    with that show ?thesis
      by (auto simp: useInitialFocus_decision_def dom_def focusElement_def Let_def)
  qed
  have unmounted: "previousActiveElement (useInitialFocus_decision c s)
      = previousActiveElement s" if "\<not> mounted s"
    using that by (simp add: useInitialFocus_decision_def)
  have listener: "\<exists>x. previousActiveElement (snd (useFocusLock_listener event s)) = Some x
      \<and> activeElement (ownerDocument (snd (useFocusLock_listener event s))) = Some x
      \<and> target event = Some x \<and> contains (ownerDocument s) (allContainers s) x"
    if "previousActiveElement (snd (useFocusLock_listener event s)) \<noteq> previousActiveElement s"
    using that
    by (auto simp: useFocusLock_listener_def focusElement_def split: option.splits if_splits)
  from decision unmounted listener show ?thesis
    by (simp only: previousActiveElement_handlers previousActiveElement_lifecycle) blast
qed

text \<open>
  On the concrete page: the decision for root 10 stores its first focusable descendant 2,
  the decision for the empty root 7 stores the outside button 9, a decision after the
  unmount stores nothing, and the listener stores the inside target 3.
\<close>

theorem previousActiveElement_assignments_witness:
  "mounted example_state
   \<and> previousActiveElement (useInitialFocus_decision 10 example_state) = Some 2
   \<and> previousActiveElement (useInitialFocus_decision 7 example_state) = Some 9
   \<and> \<not> mounted (onUnmounted example_state)
   \<and> previousActiveElement (useInitialFocus_decision 10 (onUnmounted example_state)) = None
   \<and> previousActiveElement (snd (useFocusLock_listener (example_event (Some 3) None)
         (example_state\<lparr>previousActiveElement := Some 2\<rparr>))) = Some 3
   \<and> contains example_document
         (allContainers (example_state\<lparr>previousActiveElement := Some 2\<rparr>)) 3"
proof -
  let ?s = "example_state\<lparr>previousActiveElement := Some 2\<rparr>"
  let ?e = "example_event (Some 3) None"
  have m: "mounted example_state" by (simp add: example_state_def)
  have u: "\<not> mounted (onUnmounted example_state)" by (simp add: onUnmounted_def)
  have p: "previousActiveElement (onUnmounted example_state) = None"
    by (simp add: previousActiveElement_lifecycle) (simp add: example_state_def)
  have facts: "initialFocus example_state = None"
    "ownerDocument example_state = example_document"
    "activeElement example_document = Some 9"
    "\<not> element_contains example_document 10 (Some 9)"
    "\<not> element_contains example_document 7 (Some 9)"
    "focusable example_document 10 = [2, 3, 4]"
    "focusable example_document 7 = []"
    by (simp_all add: example_defs element_contains_def)
  have ch: "previousActiveElement (snd (useFocusLock_listener ?e ?s)) \<noteq> previousActiveElement ?s"
    by (simp add: useFocusLock_listener_def example_defs allContainers_def enabled_def
        Features_All_value Features_values)
  have t3: "target ?e = Some 3" "ownerDocument ?s = example_document"
    by (simp_all add: example_defs)
  from previousActiveElement_assignments [of example_state 10] m facts
  have r10: "previousActiveElement (useInitialFocus_decision 10 example_state) = Some 2"
    by simp
  from previousActiveElement_assignments [of example_state 7] m facts
  have r7: "previousActiveElement (useInitialFocus_decision 7 example_state) = Some 9"
    by simp
  from previousActiveElement_assignments [of "onUnmounted example_state" 10] u p
  have ru: "previousActiveElement (useInitialFocus_decision 10 (onUnmounted example_state))
      = None"
    by simp
  from previousActiveElement_assignments [of ?s _ ?e] ch
  have "\<exists>x. previousActiveElement (snd (useFocusLock_listener ?e ?s)) = Some x
      \<and> target ?e = Some x \<and> contains (ownerDocument ?s) (allContainers ?s) x"
    by blast
  with t3 have r3: "previousActiveElement (snd (useFocusLock_listener ?e ?s)) = Some 3
      \<and> contains example_document (allContainers ?s) 3"
    by auto
  from m u r10 r7 ru r3 show ?thesis by blast
qed

section \<open>Properties of the restore-focus manager\<close>

text \<open>
  C5: when the RestoreFocus flag goes from unset (the immediate call at creation) or from
  false to true, the watcher stores the document's active element as Restore Element,
  unless one is held already. When the flag goes from true to false, and on unmount
  whatever the flag is, a held Restore Element receives the focus and is cleared; with
  none held the state is as it was (on unmount the mounted flag apart). On mount the
  watcher is called with the flag's value and no previous value.
\<close>

theorem useRestoreFocus_transitions:
  "useRestoreFocus_watch True None s =
     (if restoreElement s = None
      then s\<lparr>restoreElement := activeElement (ownerDocument s)\<rparr> else s)
   \<and> useRestoreFocus_watch True (Some False) s =
     (if restoreElement s = None
      then s\<lparr>restoreElement := activeElement (ownerDocument s)\<rparr> else s)
   \<and> useRestoreFocus_watch False (Some True) s =
     (case restoreElement s of
        None \<Rightarrow> s
      | Some el \<Rightarrow>
          s\<lparr>ownerDocument := (ownerDocument s)
              \<lparr>activeElement := Some el,
               calls := calls (ownerDocument s) @ [FocusElement el]\<rparr>,
            restoreElement := None\<rparr>)
   \<and> onUnmounted s =
     (case restoreElement s of
        None \<Rightarrow> s\<lparr>mounted := False\<rparr>
      | Some el \<Rightarrow>
          s\<lparr>ownerDocument := (ownerDocument s)
              \<lparr>activeElement := Some el,
               calls := calls (ownerDocument s) @ [FocusElement el]\<rparr>,
            restoreElement := None, mounted := False\<rparr>)
   \<and> restoreElement (onMounted s)
      = restoreElement (useRestoreFocus_watch (enabled (features s) RestoreFocus) None s)"
proof -
  have capture: "useRestoreFocus_watch True prevValue s =
     (if restoreElement s = None
      then s\<lparr>restoreElement := activeElement (ownerDocument s)\<rparr> else s)"
    if "prevValue \<noteq> Some True" for prevValue
    using that by (auto simp: useRestoreFocus_watch_def captureFocus_def)
  have restore: "useRestoreFocus_watch False (Some True) s =
     (case restoreElement s of
        None \<Rightarrow> s
      | Some el \<Rightarrow>
          s\<lparr>ownerDocument := (ownerDocument s)
              \<lparr>activeElement := Some el,
               calls := calls (ownerDocument s) @ [FocusElement el]\<rparr>,
            restoreElement := None\<rparr>)"
    by (simp add: useRestoreFocus_watch_def restoreFocusIfNeeded_def focusElement_def
        split: option.splits)
  have unmount: "onUnmounted s =
     (case restoreElement s of
        None \<Rightarrow> s\<lparr>mounted := False\<rparr>
      | Some el \<Rightarrow>
          s\<lparr>ownerDocument := (ownerDocument s)
              \<lparr>activeElement := Some el,
               calls := calls (ownerDocument s) @ [FocusElement el]\<rparr>,
            restoreElement := None, mounted := False\<rparr>)"
    by (simp add: onUnmounted_def restoreFocusIfNeeded_def focusElement_def
        split: option.splits)
  have mount: "restoreElement (onMounted s)
      = restoreElement (useRestoreFocus_watch (enabled (features s) RestoreFocus) None s)"
    by (simp add: onMounted_def useInitialFocus_watch_def microTask_def
        split: option.splits)
  from capture [of None] capture [of "Some False"] restore unmount mount
  show ?thesis by simp
qed

text \<open>
  On the concrete page: mounting the trap captures the outside button 9; after the focus
  has moved into the trap, the unmount gives it back to 9 and clears the capture.
\<close>

lemma useRestoreFocus_example:
  "restoreElement (onMounted (example_state\<lparr>mounted := False\<rparr>)) = Some 9
   \<and> activeElement (ownerDocument
        (onUnmounted (flush_microTasks (onMounted (example_state\<lparr>mounted := False\<rparr>)))))
      = Some 9
   \<and> restoreElement
        (onUnmounted (flush_microTasks (onMounted (example_state\<lparr>mounted := False\<rparr>))))
      = None"
proof -
  have en: "enabled Features_All RestoreFocus" "enabled Features_All InitialFocus"
    by (simp_all add: enabled_def Features_All_value Features_values)
  show ?thesis
    by (simp add: onMounted_def onUnmounted_def restoreFocusIfNeeded_def focusElement_def
        example_defs useRestoreFocus_watch_def captureFocus_def
        useInitialFocus_watch_def microTask_def dom_def en flush_microTasks_def run_task_def
        useInitialFocus_decision_def element_contains_def focusIn_First_NoScroll Let_def)
qed

section \<open>Properties of the focus-out handler\<close>

lemma focusIn_relative:
  assumes "index_of t (focusable d root) = Some i"
  shows "activeElement (snd (focusIn d (Some root) {Next, WrapAround} [] (Some t)))
      = Some (focusable d root ! ((i + 1) mod length (focusable d root)))"
    and "activeElement (snd (focusIn d (Some root) {Previous, WrapAround} [] (Some t)))
      = Some (focusable d root
          ! ((i + length (focusable d root) - 1) mod length (focusable d root)))"
  using assms
  by (simp_all add: focusIn_def candidate_Next_wrap candidate_Previous_wrap)

text \<open>
  C6, as the spec states it, fails where the element losing the focus is no
  \<^verbatim>\<open>HTMLElement\<close>: the link 4 inside the trap loses the focus to the outside button 9
  without the Tab key, and the handler does nothing.
\<close>

theorem handleBlur_target_not_HTMLElement:
  "relatedTarget (example_event (Some 4) (Some 9)) = Some 9
   \<and> \<not> headlessuiFocusGuard example_document 9
   \<and> \<not> contains example_document (allContainers example_state) 9
   \<and> \<not> recentlyUsedTabKey example_state
   \<and> target (example_event (Some 4) (Some 9)) = Some 4
   \<and> handleBlur (example_event (Some 4) (Some 9)) example_state = example_state
   \<and> activeElement (ownerDocument (handleBlur (example_event (Some 4) (Some 9)) example_state))
      \<noteq> Some 4"
  by (simp add: handleBlur_def example_defs allContainers_def)

text \<open>
  C6 (amended): the handler does nothing when \<^verbatim>\<open>relatedTarget\<close> is absent, carries the
  focus-guard marker, or lies within the effective container set. Otherwise, with the
  Recently-used-Tab-key flag true, it calls \<^verbatim>\<open>focusIn\<close> on the trap root with
  \<^verbatim>\<open>Next | WrapAround\<close> (direction Forwards) or \<^verbatim>\<open>Previous | WrapAround\<close> (direction
  Backwards) relative to the event's target, so that the focus goes to the focusable
  element after or before the target, wrapping around inside the trap root. With the
  flag false it moves focus straight back onto the event's target when the target is an
  \<^verbatim>\<open>HTMLElement\<close>, and does nothing when it is not.
\<close>

theorem handleBlur_cases:
  "(relatedTarget e = None
      \<or> (\<exists>r. relatedTarget e = Some r
            \<and> (headlessuiFocusGuard (ownerDocument s) r
                \<or> contains (ownerDocument s) (allContainers s) r))
     \<longrightarrow> handleBlur e s = s)
   \<and> (relatedTarget e = Some related
       \<and> \<not> headlessuiFocusGuard (ownerDocument s) related
       \<and> \<not> contains (ownerDocument s) (allContainers s) related
     \<longrightarrow> (recentlyUsedTabKey s \<longrightarrow>
            handleBlur e s =
              s\<lparr>ownerDocument :=
                  snd (focusIn (ownerDocument s) (container s)
                    {case direction s of Forwards \<Rightarrow> Next | Backwards \<Rightarrow> Previous,
                     WrapAround}
                    [] (target e))\<rparr>
            \<and> (container s = Some root \<and> target e = Some t
                 \<and> index_of t (focusable (ownerDocument s) root) = Some i
               \<longrightarrow> activeElement (ownerDocument (handleBlur e s)) =
                    Some (focusable (ownerDocument s) root !
                      (case direction s of
                         Forwards \<Rightarrow> (i + 1) mod length (focusable (ownerDocument s) root)
                       | Backwards \<Rightarrow>
                           (i + length (focusable (ownerDocument s) root) - 1)
                             mod length (focusable (ownerDocument s) root)))))
        \<and> (\<not> recentlyUsedTabKey s \<longrightarrow>
            handleBlur e s =
              (case target e of
                 None \<Rightarrow> s
               | Some x \<Rightarrow>
                   if instanceof_HTMLElement (ownerDocument s) x
                   then s\<lparr>ownerDocument := (ownerDocument s)
                          \<lparr>activeElement := Some x,
                           calls := calls (ownerDocument s) @ [FocusElement x]\<rparr>\<rparr>
                   else s)))"
proof -
  have ignore: "handleBlur e s = s"
    if "relatedTarget e = None
      \<or> (\<exists>r. relatedTarget e = Some r
            \<and> (headlessuiFocusGuard (ownerDocument s) r
                \<or> contains (ownerDocument s) (allContainers s) r))"
    using that by (auto simp: handleBlur_def)
  have keyboard: "handleBlur e s =
      s\<lparr>ownerDocument :=
          snd (focusIn (ownerDocument s) (container s)
            {case direction s of Forwards \<Rightarrow> Next | Backwards \<Rightarrow> Previous, WrapAround}
            [] (target e))\<rparr>"
    if "relatedTarget e = Some related"
      "\<not> headlessuiFocusGuard (ownerDocument s) related"
      "\<not> contains (ownerDocument s) (allContainers s) related"
      "recentlyUsedTabKey s"
    using that by (simp add: handleBlur_def dom_def insert_commute)
  have landing: "activeElement (ownerDocument (handleBlur e s)) =
      Some (focusable (ownerDocument s) root !
        (case direction s of
           Forwards \<Rightarrow> (i + 1) mod length (focusable (ownerDocument s) root)
         | Backwards \<Rightarrow>
             (i + length (focusable (ownerDocument s) root) - 1)
               mod length (focusable (ownerDocument s) root)))"
    if "relatedTarget e = Some related"
      "\<not> headlessuiFocusGuard (ownerDocument s) related"
      "\<not> contains (ownerDocument s) (allContainers s) related"
      "recentlyUsedTabKey s"
      "container s = Some root" "target e = Some t"
      "index_of t (focusable (ownerDocument s) root) = Some i"
    using that keyboard [OF that(1-4)]
    by (cases "direction s") (simp_all add: focusIn_relative)
  have pointer: "handleBlur e s =
      (case target e of
         None \<Rightarrow> s
       | Some x \<Rightarrow>
           if instanceof_HTMLElement (ownerDocument s) x
           then s\<lparr>ownerDocument := (ownerDocument s)
                  \<lparr>activeElement := Some x,
                   calls := calls (ownerDocument s) @ [FocusElement x]\<rparr>\<rparr>
           else s)"
    if "relatedTarget e = Some related"
      "\<not> headlessuiFocusGuard (ownerDocument s) related"
      "\<not> contains (ownerDocument s) (allContainers s) related"
      "\<not> recentlyUsedTabKey s"
    using that by (simp add: handleBlur_def focusElement_def split: option.splits)
  from ignore keyboard landing pointer show ?thesis by blast
qed

text \<open>
  On the concrete page: a focus-out with no \<^verbatim>\<open>relatedTarget\<close>, towards the sentinel 8
  or towards 6 inside the extra container is ignored. After Tab, losing the focus from
  the last element 4 to the outside button 9 wraps forwards to 2, and from the first
  element 2 wraps backwards to 4. Without Tab, the element 3 that lost the focus to
  the outside button gets it back.
\<close>

theorem handleBlur_cases_witness:
  "handleBlur (example_event (Some 2) None) example_state = example_state
   \<and> handleBlur (example_event (Some 2) (Some 8)) example_state = example_state
   \<and> handleBlur (example_event (Some 2) (Some 6)) example_state = example_state
   \<and> activeElement (ownerDocument (handleBlur (example_event (Some 4) (Some 9))
        (example_state\<lparr>recentlyUsedTabKey := True\<rparr>))) = Some 2
   \<and> activeElement (ownerDocument (handleBlur (example_event (Some 2) (Some 9))
        (example_state\<lparr>recentlyUsedTabKey := True, direction := Backwards\<rparr>))) = Some 4
   \<and> handleBlur (example_event (Some 3) (Some 9)) example_state
      = example_state
          \<lparr>ownerDocument := example_document
             \<lparr>activeElement := Some 3, calls := [FocusElement 3]\<rparr>\<rparr>"
proof -
  let ?tab = "example_state\<lparr>recentlyUsedTabKey := True\<rparr>"
  let ?bwd = "example_state\<lparr>recentlyUsedTabKey := True, direction := Backwards\<rparr>"
  have d: "ownerDocument example_state = example_document"
    "ownerDocument ?tab = example_document" "ownerDocument ?bwd = example_document"
    by (simp_all add: example_state_def)
  have c: "allContainers ?tab = [Some 5, Some 10]" "allContainers ?bwd = [Some 5, Some 10]"
    "allContainers example_state = [Some 5, Some 10]"
    by (simp_all add: example_state_def allContainers_def)
  have out: "\<not> headlessuiFocusGuard example_document 9"
    "\<not> contains example_document [Some 5, Some 10] 9"
    by (simp_all add: example_document_def)
  have ins: "headlessuiFocusGuard example_document 8"
    "contains example_document [Some 5, Some 10] 6"
    by (simp_all add: example_document_def)
  have f: "focusable example_document 10 = [2, 3, 4]" "calls example_document = []"
    "instanceof_HTMLElement example_document 3"
    by (simp_all add: example_document_def)
  have ix: "index_of 4 [2, 3, 4] = Some 2" "index_of 2 [2, 3, 4] = Some 0"
    by simp_all
  have ev: "relatedTarget (example_event t r) = r" "target (example_event t r) = t" for t r
    by (simp_all add: example_event_def)
  have st: "recentlyUsedTabKey ?tab" "recentlyUsedTabKey ?bwd"
    "\<not> recentlyUsedTabKey example_state"
    "container ?tab = Some 10" "container ?bwd = Some 10"
    "direction ?tab = Forwards" "direction ?bwd = Backwards"
    by (simp_all add: example_state_def)
  from handleBlur_cases [of "example_event (Some 2) None" example_state]
  have r1: "handleBlur (example_event (Some 2) None) example_state = example_state"
    by (simp add: ev)
  from handleBlur_cases [of "example_event (Some 2) (Some 8)" example_state] ins
  have r2: "handleBlur (example_event (Some 2) (Some 8)) example_state = example_state"
    by (simp add: ev d)
  from handleBlur_cases [of "example_event (Some 2) (Some 6)" example_state] ins
  have r3: "handleBlur (example_event (Some 2) (Some 6)) example_state = example_state"
    by (simp add: ev d c)
  have h4: "relatedTarget (example_event (Some 4) (Some 9)) = Some 9
      \<and> \<not> headlessuiFocusGuard (ownerDocument ?tab) 9
      \<and> \<not> contains (ownerDocument ?tab) (allContainers ?tab) 9"
    "recentlyUsedTabKey ?tab"
    "container ?tab = Some 10 \<and> target (example_event (Some 4) (Some 9)) = Some 4
      \<and> index_of 4 (focusable (ownerDocument ?tab) 10) = Some 2"
    using out by (simp_all add: ev d c f ix st)
  from handleBlur_cases [of "example_event (Some 4) (Some 9)" ?tab 9 10 4 2] h4
  have "activeElement (ownerDocument (handleBlur (example_event (Some 4) (Some 9)) ?tab))
      = Some (focusable (ownerDocument ?tab) 10 !
          (case direction ?tab of
             Forwards \<Rightarrow> (2 + 1) mod length (focusable (ownerDocument ?tab) 10)
           | Backwards \<Rightarrow>
               (2 + length (focusable (ownerDocument ?tab) 10) - 1)
                 mod length (focusable (ownerDocument ?tab) 10)))"
    by blast
  then have r4:
    "activeElement (ownerDocument (handleBlur (example_event (Some 4) (Some 9)) ?tab))
      = Some 2"
    by (simp add: d f st)
  have h5: "relatedTarget (example_event (Some 2) (Some 9)) = Some 9
      \<and> \<not> headlessuiFocusGuard (ownerDocument ?bwd) 9
      \<and> \<not> contains (ownerDocument ?bwd) (allContainers ?bwd) 9"
    "recentlyUsedTabKey ?bwd"
    "container ?bwd = Some 10 \<and> target (example_event (Some 2) (Some 9)) = Some 2
      \<and> index_of 2 (focusable (ownerDocument ?bwd) 10) = Some 0"
    using out by (simp_all add: ev d c f ix st)
  from handleBlur_cases [of "example_event (Some 2) (Some 9)" ?bwd 9 10 2 0] h5
  have "activeElement (ownerDocument (handleBlur (example_event (Some 2) (Some 9)) ?bwd))
      = Some (focusable (ownerDocument ?bwd) 10 !
          (case direction ?bwd of
             Forwards \<Rightarrow> (0 + 1) mod length (focusable (ownerDocument ?bwd) 10)
           | Backwards \<Rightarrow>
               (0 + length (focusable (ownerDocument ?bwd) 10) - 1)
                 mod length (focusable (ownerDocument ?bwd) 10)))"
    by blast
  then have r5:
    "activeElement (ownerDocument (handleBlur (example_event (Some 2) (Some 9)) ?bwd))
      = Some 4"
    by (simp add: d f st)
  from handleBlur_cases [of "example_event (Some 3) (Some 9)" example_state 9] out
  have r6: "handleBlur (example_event (Some 3) (Some 9)) example_state
      = example_state
          \<lparr>ownerDocument := example_document
             \<lparr>activeElement := Some 3, calls := [FocusElement 3]\<rparr>\<rparr>"
    by (simp add: ev d c f st)
  from r1 r2 r3 r4 r5 r6 show ?thesis by blast
qed

section \<open>Properties of the sentinels\<close>

lemma focusIn_First_skip:
  "focusIn d (Some root) {First} skipElements None =
     (case filter (\<lambda>x. Some x \<notin> set skipElements) (focusable d root) of
        [] \<Rightarrow> (Error, d\<lparr>calls := calls d @ [FocusIn (Some root) {First} skipElements None]\<rparr>)
      | x # xs \<Rightarrow>
          (Success,
           d\<lparr>activeElement := Some x,
             calls := calls d @ [FocusIn (Some root) {First} skipElements None]\<rparr>))"
  by (simp add: focusIn_def candidate_def split: list.splits)

lemma focusIn_Last_skip:
  "focusIn d (Some root) {Last} skipElements None =
     (let elements = filter (\<lambda>x. Some x \<notin> set skipElements) (focusable d root)
      in if elements = []
         then (Error, d\<lparr>calls := calls d @ [FocusIn (Some root) {Last} skipElements None]\<rparr>)
         else (Success,
               d\<lparr>activeElement := Some (last elements),
                 calls := calls d @ [FocusIn (Some root) {Last} skipElements None]\<rparr>))"
  by (simp add: focusIn_def candidate_def Let_def)

text \<open>
  C7: the fragment rendered is the trap root between two sentinels when TabLock is
  enabled, and the trap root alone (the two other children are \<^verbatim>\<open>false\<close>) when it is
  disabled. A focus event on a sentinel, with the trap root mounted, calls \<^verbatim>\<open>focusIn\<close>
  on the root with \<^verbatim>\<open>Focus.First\<close> when the direction is Forwards and with
  \<^verbatim>\<open>Focus.Last\<close> when it is Backwards, the event's \<^verbatim>\<open>relatedTarget\<close> being the one
  element to skip: the focus goes to the first, or last, focusable descendant of the root
  other than \<^verbatim>\<open>relatedTarget\<close>, and stays where it is when there is none. Under test
  instrumentation the same redirect is queued as a microtask.
\<close>

theorem handleFocus_sentinel:
  "render s =
     (if enabled (features s) TabLock then [FocusGuard, TrapRoot, FocusGuard]
      else [VFalse, TrapRoot, VFalse])
   \<and> (container s = Some el \<and> \<not> test_env s \<longrightarrow>
        handleFocus e s =
          s\<lparr>ownerDocument :=
              snd (focusIn (ownerDocument s) (Some el)
                {case direction s of Forwards \<Rightarrow> First | Backwards \<Rightarrow> Last}
                [relatedTarget e] None)\<rparr>
        \<and> activeElement (ownerDocument (handleFocus e s)) =
            (let elements =
                   filter (\<lambda>x. Some x \<noteq> relatedTarget e) (focusable (ownerDocument s) el)
             in if elements = [] then activeElement (ownerDocument s)
                else Some (case direction s of
                             Forwards \<Rightarrow> hd elements
                           | Backwards \<Rightarrow> last elements)))
   \<and> (container s = Some el \<and> test_env s \<longrightarrow>
        handleFocus e s = s\<lparr>microTasks := microTasks s @ [SentinelRedirect el (relatedTarget e)]\<rparr>
        \<and> run_task (SentinelRedirect el (relatedTarget e)) s' =
            s'\<lparr>ownerDocument :=
                snd (focusIn (ownerDocument s') (Some el)
                  {case direction s' of Forwards \<Rightarrow> First | Backwards \<Rightarrow> Last}
                  [relatedTarget e] None)\<rparr>)"
proof -
  have redirect: "handleFocus_redirect el related x =
      x\<lparr>ownerDocument :=
          snd (focusIn (ownerDocument x) (Some el)
            {case direction x of Forwards \<Rightarrow> First | Backwards \<Rightarrow> Last}
            [related] None)\<rparr>" for related x
    by (simp add: handleFocus_redirect_def split: TabDirection.splits)
  have landing: "activeElement (ownerDocument (handleFocus_redirect el related s)) =
      (let elements = filter (\<lambda>x. Some x \<noteq> related) (focusable (ownerDocument s) el)
       in if elements = [] then activeElement (ownerDocument s)
          else Some (case direction s of
                       Forwards \<Rightarrow> hd elements
                     | Backwards \<Rightarrow> last elements))" for related
    by (cases "direction s")
      (simp_all add: handleFocus_redirect_def focusIn_First_skip focusIn_Last_skip Let_def
        split: list.splits)
  have sync: "handleFocus e s = handleFocus_redirect el (relatedTarget e) s"
    if "container s = Some el" "\<not> test_env s"
    using that by (simp add: handleFocus_def dom_def)
  have deferred: "handleFocus e s
      = s\<lparr>microTasks := microTasks s @ [SentinelRedirect el (relatedTarget e)]\<rparr>"
    if "container s = Some el" "test_env s"
    using that by (simp add: handleFocus_def dom_def microTask_def)
  have task: "run_task (SentinelRedirect el (relatedTarget e)) s'
      = handleFocus_redirect el (relatedTarget e) s'"
    by (simp add: run_task_def)
  have rendered: "render s =
     (if enabled (features s) TabLock then [FocusGuard, TrapRoot, FocusGuard]
      else [VFalse, TrapRoot, VFalse])"
    by (simp add: render_def)
  from sync deferred show ?thesis
    by (simp only: rendered task redirect [symmetric] landing [symmetric]) simp
qed

text \<open>
  On the concrete page: the sentinels are rendered with every feature on and are not
  with \<open>None\<close>; entering a sentinel from element 2 goes forwards to 3, the first
  focusable descendant that is not element 2, and backwards to 4, the last.
\<close>

theorem handleFocus_sentinel_witness:
  "render example_state = [FocusGuard, TrapRoot, FocusGuard]
   \<and> render (example_state\<lparr>features := Features_None\<rparr>) = [VFalse, TrapRoot, VFalse]
   \<and> activeElement (ownerDocument
        (handleFocus (example_event (Some 8) (Some 2)) example_state)) = Some 3
   \<and> activeElement (ownerDocument
        (handleFocus (example_event (Some 8) (Some 2))
           (example_state\<lparr>direction := Backwards\<rparr>))) = Some 4
   \<and> flush_microTasks
        (handleFocus (example_event (Some 8) (Some 2)) (example_state\<lparr>test_env := True\<rparr>))
      = (handleFocus (example_event (Some 8) (Some 2)) example_state)\<lparr>test_env := True\<rparr>"
proof -
  let ?e = "example_event (Some 8) (Some 2)"
  let ?bwd = "example_state\<lparr>direction := Backwards\<rparr>"
  let ?test = "example_state\<lparr>test_env := True\<rparr>"
  have en: "enabled (features example_state) TabLock"
    "\<not> enabled (features (example_state\<lparr>features := Features_None\<rparr>)) TabLock"
    by (simp_all add: example_state_def enabled_def Features_All_value Features_values)
  have st: "container example_state = Some 10" "\<not> test_env example_state"
    "container ?bwd = Some 10" "\<not> test_env ?bwd"
    "container ?test = Some 10" "test_env ?test"
    "direction example_state = Forwards" "direction ?bwd = Backwards"
    "ownerDocument example_state = example_document"
    "ownerDocument ?bwd = example_document"
    "microTasks example_state = []"
    by (simp_all add: example_state_def)
  have f: "focusable example_document 10 = [2, 3, 4]" "relatedTarget ?e = Some 2"
    by (simp_all add: example_document_def example_event_def)
  from handleFocus_sentinel [of example_state 10 ?e] en
  have r1: "render example_state = [FocusGuard, TrapRoot, FocusGuard]"
    by simp
  from handleFocus_sentinel [of "example_state\<lparr>features := Features_None\<rparr>" 10 ?e] en
  have r2: "render (example_state\<lparr>features := Features_None\<rparr>) = [VFalse, TrapRoot, VFalse]"
    by simp
  have h3: "container example_state = Some 10 \<and> \<not> test_env example_state"
    and h4: "container ?bwd = Some 10 \<and> \<not> test_env ?bwd"
    by (simp_all add: st)
  from handleFocus_sentinel [of example_state 10 ?e] h3
  have "activeElement (ownerDocument (handleFocus ?e example_state)) =
      (let elements =
             filter (\<lambda>x. Some x \<noteq> relatedTarget ?e)
               (focusable (ownerDocument example_state) 10)
       in if elements = [] then activeElement (ownerDocument example_state)
          else Some (case direction example_state of
                       Forwards \<Rightarrow> hd elements
                     | Backwards \<Rightarrow> last elements))"
    by blast
  then have r3: "activeElement (ownerDocument (handleFocus ?e example_state)) = Some 3"
    by (simp add: f st)
  from handleFocus_sentinel [of ?bwd 10 ?e] h4
  have "activeElement (ownerDocument (handleFocus ?e ?bwd)) =
      (let elements =
             filter (\<lambda>x. Some x \<noteq> relatedTarget ?e) (focusable (ownerDocument ?bwd) 10)
       in if elements = [] then activeElement (ownerDocument ?bwd)
          else Some (case direction ?bwd of
                       Forwards \<Rightarrow> hd elements
                     | Backwards \<Rightarrow> last elements))"
    by blast
  then have r4: "activeElement (ownerDocument (handleFocus ?e ?bwd)) = Some 4"
    by (simp add: f st)
  from handleFocus_sentinel [of ?test 10 ?e example_state]
    handleFocus_sentinel [of example_state 10 ?e] st
  have r5: "flush_microTasks (handleFocus ?e ?test) = (handleFocus ?e example_state)\<lparr>test_env := True\<rparr>"
    by (simp add: flush_microTasks_def run_task_def handleFocus_redirect_def)
  from r1 r2 r3 r4 r5 show ?thesis by blast
qed

end
